theory Spec2Isabelle
  imports Complex_Main
begin

section \<open>Astrotracker: celestial position engine and observer location\<close>

text \<open>
  The development embeds \<^verbatim>\<open>astro_simulator.py\<close> (class AstroTrackingSimulator),
  \<^verbatim>\<open>ubicacion.py\<close> (class UbicacionManager) and \<^verbatim>\<open>astrotracker_ubicacion.py\<close>
  (class AstroTrackerConUbicacion). Python floats are read as \<open>real\<close>; the frame
  transform, the ephemerides, the time type and the JSON text codec belong to external
  libraries (astropy, json) and enter every function as an explicit parameter. Where a
  property is about what the transform computes, the transform is the one the
  specification gives in its section 4.2. The
  wall clock (\<^verbatim>\<open>Time.now()\<close>, \<^verbatim>\<open>datetime.now()\<close>) is an explicit argument too, so that
  a function reading it shows the dependency in its type.
\<close>

subsection \<open>Exceptions\<close>

datatype exn =
    KeyError string
  | AttributeError
  | TypeError
  | LibraryError string

subsection \<open>The star catalog\<close>

record catalog_entry =
  ra :: real
  dec :: real
  magnitude :: real

type_synonym catalog = "(string \<times> catalog_entry) list"

definition star_catalog :: catalog where
  "star_catalog =
    [ (''Sirius'',     \<lparr>ra = 101.287, dec = - 16.716, magnitude = - 1.46\<rparr>),
      (''Vega'',       \<lparr>ra = 279.234, dec = 38.784,   magnitude = 0.03\<rparr>),
      (''Polaris'',    \<lparr>ra = 37.946,  dec = 89.264,   magnitude = 1.97\<rparr>),
      (''Betelgeuse'', \<lparr>ra = 88.793,  dec = 7.407,    magnitude = 0.50\<rparr>),
      (''Rigel'',      \<lparr>ra = 78.634,  dec = - 8.202,  magnitude = 0.13\<rparr>),
      (''Aldebaran'',  \<lparr>ra = 68.980,  dec = 16.509,   magnitude = 0.85\<rparr>),
      (''Capella'',    \<lparr>ra = 79.172,  dec = 45.998,   magnitude = 0.08\<rparr>),
      (''Arcturus'',   \<lparr>ra = 213.915, dec = 19.182,   magnitude = - 0.05\<rparr>),
      (''Antares'',    \<lparr>ra = 247.352, dec = - 26.432, magnitude = 1.09\<rparr>) ]"

subsection \<open>Simulator state\<close>

record 'loc simulator =
  earth_location :: "'loc option"
  target_object :: "string option"
  tracking_active :: bool
  catalog :: catalog

text \<open>The constructor \<^verbatim>\<open>AstroTrackingSimulator.__init__\<close>.\<close>

definition init_simulator :: "'loc option \<Rightarrow> 'loc simulator" where
  "init_simulator loc =
     \<lparr>earth_location = loc, target_object = None, tracking_active = False,
      catalog = star_catalog\<rparr>"

text \<open>Python's \<^verbatim>\<open>target_name in self.catalog\<close>.\<close>

definition in_catalog :: "'loc simulator \<Rightarrow> string \<Rightarrow> bool" where
  "in_catalog s target_name = (map_of (catalog s) target_name \<noteq> None)"

text \<open>\<^verbatim>\<open>set_target\<close>: the returned flag, and the simulator after the call.\<close>

definition set_target :: "'loc simulator \<Rightarrow> string \<Rightarrow> bool \<times> 'loc simulator" where
  "set_target s target_name =
     (if in_catalog s target_name
      then (True, s\<lparr>target_object := Some target_name, tracking_active := True\<rparr>)
      else (False, s))"

definition get_catalog_objects :: "'loc simulator \<Rightarrow> string list" where
  "get_catalog_objects s = map fst (catalog s)"

subsection \<open>Day phase\<close>

text \<open>
  The five labels of \<^verbatim>\<open>day_phase\<close> in \<^verbatim>\<open>get_sun_moon_info\<close>: "Dia", "Crepusculo",
  "Crepusculo nautico", "Crepusculo astronomico", "Noche".
\<close>

datatype day_phase =
    Dia
  | Crepusculo
  | Crepusculo_nautico
  | Crepusculo_astronomico
  | Noche

text \<open>The \<^verbatim>\<open>if/elif\<close> chain of \<^verbatim>\<open>get_sun_moon_info\<close> on the solar altitude.\<close>

definition day_phase_of :: "real \<Rightarrow> day_phase" where
  "day_phase_of sun_alt =
     (if sun_alt > 6 then Dia
      else if sun_alt > - 6 then Crepusculo
      else if sun_alt > - 12 then Crepusculo_nautico
      else if sun_alt > - 18 then Crepusculo_astronomico
      else Noche)"

text \<open>Position of a phase on the way from day to night, used to state monotonicity.\<close>

fun darkness :: "day_phase \<Rightarrow> nat" where
  "darkness Dia = 0"
| "darkness Crepusculo = 1"
| "darkness Crepusculo_nautico = 2"
| "darkness Crepusculo_astronomico = 3"
| "darkness Noche = 4"

subsection \<open>The astronomy library\<close>

text \<open>
  What the code asks of astropy, as a record of functions; \<open>Inl\<close> is a raised
  exception. \<open>Time_of\<close> is \<^verbatim>\<open>Time(timestamp)\<close>, \<open>iso\<close> is \<^verbatim>\<open>.iso\<close>, \<open>star_altaz\<close> is
  \<^verbatim>\<open>SkyCoord(ra, dec, frame='icrs').transform_to(AltAz(obstime, location))\<close> read as the
  pair \<^verbatim>\<open>(alt.deg, az.deg)\<close>, \<open>sun_altaz\<close> and \<open>moon_altaz\<close> are the same transform applied
  to \<^verbatim>\<open>get_sun(t)\<close> and \<^verbatim>\<open>get_moon(t)\<close>.
\<close>

record ('loc, 'ts, 'time) astropy =
  Time_of :: "'ts \<Rightarrow> exn + 'time"
  iso :: "'time \<Rightarrow> string"
  star_altaz :: "'loc \<Rightarrow> 'time \<Rightarrow> real \<Rightarrow> real \<Rightarrow> exn + real \<times> real"
  sun_altaz :: "'loc \<Rightarrow> 'time \<Rightarrow> exn + real \<times> real"
  moon_altaz :: "'loc \<Rightarrow> 'time \<Rightarrow> exn + real \<times> real"

subsection \<open>Horizontal coordinates of the target\<close>

record target_coords =
  name :: string
  altitud :: real
  azimut :: real
  target_magnitude :: real
  is_visible :: bool
  status :: string
  timestamp :: string

text \<open>
  The two dictionaries \<^verbatim>\<open>get_target_coordinates\<close> can return: the coordinates, or the
  error report of the \<^verbatim>\<open>except\<close> branch (target name and the exception).
\<close>

datatype target_result =
    Target_coords target_coords
  | Target_error string exn

text \<open>
  The body of the \<^verbatim>\<open>try\<close> block. \<open>now\<close> is the reading of the clock, used only when
  no timestamp is given.
\<close>

definition target_try ::
  "('loc, 'ts, 'time) astropy \<Rightarrow> 'time \<Rightarrow> catalog \<Rightarrow> string \<Rightarrow> 'loc \<Rightarrow> 'ts option
     \<Rightarrow> exn + target_coords" where
  "target_try lib now cat tgt loc ts =
     (case (case ts of None \<Rightarrow> Inr now | Some t \<Rightarrow> Time_of lib t) of
        Inl e \<Rightarrow> Inl e
      | Inr observing_time \<Rightarrow>
          (case map_of cat tgt of
             None \<Rightarrow> Inl (KeyError tgt)
           | Some target_data \<Rightarrow>
               (case star_altaz lib loc observing_time (ra target_data) (dec target_data) of
                  Inl e \<Rightarrow> Inl e
                | Inr (alt, az) \<Rightarrow>
                    Inr \<lparr>name = tgt, altitud = alt, azimut = az,
                         target_magnitude = magnitude target_data,
                         is_visible = (alt > 0),
                         status = (if alt > 0 then ''Visible'' else ''Bajo el horizonte''),
                         timestamp = iso lib observing_time\<rparr>)))"

text \<open>
  \<^verbatim>\<open>get_target_coordinates\<close>. \<open>None\<close> is Python's None, returned when the target is
  unset (or the empty string, which is falsy) or the location is absent.
\<close>

definition get_target_coordinates ::
  "('loc, 'ts, 'time) astropy \<Rightarrow> 'time \<Rightarrow> 'loc simulator \<Rightarrow> 'ts option
     \<Rightarrow> target_result option" where
  "get_target_coordinates lib now s ts =
     (case target_object s of
        None \<Rightarrow> None
      | Some tgt \<Rightarrow>
          if tgt = [] then None
          else (case earth_location s of
                  None \<Rightarrow> None
                | Some loc \<Rightarrow>
                    (case target_try lib now (catalog s) tgt loc ts of
                       Inr c \<Rightarrow> Some (Target_coords c)
                     | Inl e \<Rightarrow> Some (Target_error tgt e))))"

subsection \<open>Sun, Moon and observing conditions (simulator)\<close>

record body_info =
  body_altitud :: real
  body_azimut :: real
  visible :: bool

record sun_moon_info =
  sun :: body_info
  moon :: body_info
  day_phase :: day_phase
  observing_conditions :: string

datatype sun_moon_result =
    Sun_moon sun_moon_info
  | Sun_moon_error exn

text \<open>
  \<^verbatim>\<open>get_sun_moon_info\<close> takes no time argument: the observing time is always the clock
  reading \<open>now\<close>.
\<close>

definition get_sun_moon_info ::
  "('loc, 'ts, 'time) astropy \<Rightarrow> 'time \<Rightarrow> 'loc simulator \<Rightarrow> sun_moon_result option" where
  "get_sun_moon_info lib now s =
     (case earth_location s of
        None \<Rightarrow> None
      | Some loc \<Rightarrow>
          (case sun_altaz lib loc now of
             Inl e \<Rightarrow> Some (Sun_moon_error e)
           | Inr (sun_alt, sun_az) \<Rightarrow>
               (case moon_altaz lib loc now of
                  Inl e \<Rightarrow> Some (Sun_moon_error e)
                | Inr (moon_alt, moon_az) \<Rightarrow>
                    Some (Sun_moon
                      \<lparr>sun = \<lparr>body_altitud = sun_alt, body_azimut = sun_az,
                              visible = (sun_alt > 0)\<rparr>,
                       moon = \<lparr>body_altitud = moon_alt, body_azimut = moon_az,
                               visible = (moon_alt > 0)\<rparr>,
                       day_phase = day_phase_of sun_alt,
                       observing_conditions =
                         (if day_phase_of sun_alt = Noche then ''Good'' else ''Poor'')\<rparr>))))"

subsection \<open>Python values of the location dictionary\<close>

text \<open>
  The location dictionary \<^verbatim>\<open>ubicacion_actual\<close> holds what JSON can hold, and after
  \<^verbatim>\<open>json.load\<close> it is whatever the file contained. \<open>JNull\<close> is Python's None; an
  object is the list of its entries in the order of its keys (a Python dict has no
  duplicate keys; on a list with duplicates the first entry counts). Python's int and
  float are both \<open>JNum\<close>.
\<close>

datatype json =
    JNull
  | JBool bool
  | JNum real
  | JStr string
  | JArr "json list"
  | JObj "(string \<times> json) list"

text \<open>Python's truth value of an object, as tested by \<^verbatim>\<open>if x:\<close> and \<^verbatim>\<open>x and y\<close>.\<close>

fun truthy :: "json \<Rightarrow> bool" where
  "truthy JNull = False"
| "truthy (JBool b) = b"
| "truthy (JNum x) = (x \<noteq> 0)"
| "truthy (JStr s) = (s \<noteq> [])"
| "truthy (JArr xs) = (xs \<noteq> [])"
| "truthy (JObj kvs) = (kvs \<noteq> [])"

text \<open>\<^verbatim>\<open>d.get(k, default)\<close>: only a dict has the method.\<close>

fun dict_get :: "json \<Rightarrow> string \<Rightarrow> json \<Rightarrow> exn + json" where
  "dict_get (JObj kvs) k dflt = Inr (case map_of kvs k of None \<Rightarrow> dflt | Some v \<Rightarrow> v)"
| "dict_get _ k dflt = Inl AttributeError"

text \<open>\<^verbatim>\<open>d[k]\<close> with a string key.\<close>

fun getitem :: "json \<Rightarrow> string \<Rightarrow> exn + json" where
  "getitem (JObj kvs) k = (case map_of kvs k of None \<Rightarrow> Inl (KeyError k) | Some v \<Rightarrow> Inr v)"
| "getitem _ k = Inl TypeError"

subsection \<open>Location manager (ubicacion.py)\<close>

text \<open>
  The services the manager uses: \<open>EarthLocation lat lon h\<close> is the expression
  \<^verbatim>\<open>EarthLocation(lat=lat * u.deg, lon=lon * u.deg, height=h * u.m)\<close> of astropy, which
  may raise; \<open>json_dump\<close> and \<open>json_load\<close> are the text codec of the json module, with
  \<open>'f\<close> the content of a file.
\<close>

record ('loc, 'f) services =
  EarthLocation :: "json \<Rightarrow> json \<Rightarrow> json \<Rightarrow> exn + 'loc"
  json_dump :: "json \<Rightarrow> 'f"
  json_load :: "'f \<Rightarrow> exn + json"

text \<open>Files by name, and the names that can be opened for writing.\<close>

record 'f filesystem =
  files :: "string \<rightharpoonup> 'f"
  writable :: "string \<Rightarrow> bool"

record 'loc manager =
  ubicacion_actual :: json
  mgr_earth_location :: "'loc option"

definition init_manager :: "'loc manager" where
  "init_manager = \<lparr>ubicacion_actual = JNull, mgr_earth_location = None\<rparr>"

text \<open>
  \<^verbatim>\<open>establecer_ubicacion_manual\<close>. The dictionary is assigned first, the location is
  built afterwards; an exception of the constructor leaves the method after the first
  assignment. \<open>altura\<close> is the parameter \<^verbatim>\<open>altitud\<close>, \<open>now_iso\<close> is \<^verbatim>\<open>datetime.now().isoformat()\<close>.
\<close>

definition establecer_ubicacion_manual ::
  "('loc, 'f) services \<Rightarrow> string \<Rightarrow> 'loc manager \<Rightarrow> real \<Rightarrow> real \<Rightarrow> real \<Rightarrow> string \<Rightarrow> string
     \<Rightarrow> (exn + json) \<times> 'loc manager" where
  "establecer_ubicacion_manual lib now_iso m latitud longitud altura ciudad pais =
     (let m1 = m\<lparr>ubicacion_actual :=
                   JObj [(''latitud'', JNum latitud), (''longitud'', JNum longitud),
                         (''ciudad'', JStr ciudad), (''pais'', JStr pais),
                         (''region'', JStr []), (''timezone'', JStr []),
                         (''altitud'', JNum altura), (''timestamp'', JStr now_iso)]\<rparr>
      in case EarthLocation lib (JNum latitud) (JNum longitud) (JNum altura) of
           Inl e \<Rightarrow> (Inl e, m1)
         | Inr loc \<Rightarrow> (Inr (ubicacion_actual m1), m1\<lparr>mgr_earth_location := Some loc\<rparr>))"

definition get_earth_location :: "'loc manager \<Rightarrow> 'loc option" where
  "get_earth_location m = mgr_earth_location m"

text \<open>\<^verbatim>\<open>obtener_ubicacion(intentar_automatico=False)\<close>: the stored dictionary.\<close>

definition obtener_ubicacion_guardada :: "'loc manager \<Rightarrow> json" where
  "obtener_ubicacion_guardada m = ubicacion_actual m"

text \<open>
  \<^verbatim>\<open>guardar_ubicacion\<close>: nothing is written for a falsy dictionary (None or empty), and
  a file that cannot be opened gives False.
\<close>

definition guardar_ubicacion ::
  "('loc, 'f) services \<Rightarrow> 'f filesystem \<Rightarrow> 'loc manager \<Rightarrow> string \<Rightarrow> bool \<times> 'f filesystem" where
  "guardar_ubicacion lib fs m archivo =
     (if truthy (ubicacion_actual m)
      then (if writable fs archivo
            then (True, fs\<lparr>files := (files fs)(archivo \<mapsto> json_dump lib (ubicacion_actual m))\<rparr>)
            else (False, fs))
      else (False, fs))"

text \<open>
  The part of \<^verbatim>\<open>cargar_ubicacion\<close> after the assignment of the loaded value: the
  test \<^verbatim>\<open>d.get('latitud') and d.get('longitud')\<close> and the re-creation of the location.
\<close>

definition recrear_earth_location ::
  "('loc, 'f) services \<Rightarrow> 'loc manager \<Rightarrow> exn + 'loc manager" where
  "recrear_earth_location lib m =
     (let d = ubicacion_actual m in
      case dict_get d ''latitud'' JNull of
        Inl e \<Rightarrow> Inl e
      | Inr lat \<Rightarrow>
          (case (if truthy lat then dict_get d ''longitud'' JNull else Inr lat) of
             Inl e \<Rightarrow> Inl e
           | Inr c \<Rightarrow>
               if truthy c
               then (case getitem d ''latitud'' of
                       Inl e \<Rightarrow> Inl e
                     | Inr la \<Rightarrow>
                         (case getitem d ''longitud'' of
                            Inl e \<Rightarrow> Inl e
                          | Inr lo \<Rightarrow>
                              (case dict_get d ''altitud'' (JNum 0) of
                                 Inl e \<Rightarrow> Inl e
                               | Inr al \<Rightarrow>
                                   (case EarthLocation lib la lo al of
                                      Inl e \<Rightarrow> Inl e
                                    | Inr loc \<Rightarrow> Inr (m\<lparr>mgr_earth_location := Some loc\<rparr>)))))
               else Inr m))"

text \<open>
  \<^verbatim>\<open>cargar_ubicacion\<close>: the returned value (\<open>None\<close> for Python's None) and the manager
  after the call. A missing file or a decoding error leaves the manager untouched; an
  exception after the assignment returns None with the loaded value already stored.
\<close>

definition cargar_ubicacion ::
  "('loc, 'f) services \<Rightarrow> 'f filesystem \<Rightarrow> 'loc manager \<Rightarrow> string
     \<Rightarrow> json option \<times> 'loc manager" where
  "cargar_ubicacion lib fs m archivo =
     (case files fs archivo of
        None \<Rightarrow> (None, m)
      | Some txt \<Rightarrow>
          (case json_load lib txt of
             Inl e \<Rightarrow> (None, m)
           | Inr d \<Rightarrow>
               (case recrear_earth_location lib (m\<lparr>ubicacion_actual := d\<rparr>) of
                  Inl e \<Rightarrow> (None, m\<lparr>ubicacion_actual := d\<rparr>)
                | Inr m2 \<Rightarrow> (Some (ubicacion_actual m2), m2))))"

text \<open>
  The value a dictionary holds under a key, or the default: what \<^verbatim>\<open>d.get(k, default)\<close>
  returns on a dict. Used to state what \<open>cargar_ubicacion\<close> tests.
\<close>

definition stored :: "json \<Rightarrow> string \<Rightarrow> json \<Rightarrow> json" where
  "stored d k dflt = (case dict_get d k dflt of Inl e \<Rightarrow> dflt | Inr v \<Rightarrow> v)"

text \<open>\<^verbatim>\<open>create_simulator\<close> of astro\_simulator.py.\<close>

definition create_simulator :: "'loc manager \<Rightarrow> 'loc simulator" where
  "create_simulator ubicacion_mgr = init_simulator (get_earth_location ubicacion_mgr)"

subsection \<open>Tracker with location (astrotracker\_ubicacion.py)\<close>

record 'loc tracker =
  ubicacion_manager :: "'loc manager"
  tracker_earth_location :: "'loc option"

record posicion =
  elevacion :: real
  azimuth :: real
  tiempo :: string

text \<open>
  \<^verbatim>\<open>calcular_posicion_sol\<close> and \<^verbatim>\<open>calcular_posicion_luna\<close>. There is no \<^verbatim>\<open>try\<close>: an
  exception of the library leaves the method (\<open>Inl\<close>); \<open>Inr None\<close> is the returned None
  of an uninitialised location. The clock is read when no time is passed.
\<close>

definition calcular_posicion_sol ::
  "('loc, 'ts, 'time) astropy \<Rightarrow> 'time \<Rightarrow> 'loc tracker \<Rightarrow> 'time option
     \<Rightarrow> exn + posicion option" where
  "calcular_posicion_sol lib now tr t_arg =
     (case tracker_earth_location tr of
        None \<Rightarrow> Inr None
      | Some loc \<Rightarrow>
          (let t = (case t_arg of None \<Rightarrow> now | Some t' \<Rightarrow> t') in
           case sun_altaz lib loc t of
             Inl e \<Rightarrow> Inl e
           | Inr (alt, az) \<Rightarrow> Inr (Some \<lparr>elevacion = alt, azimuth = az, tiempo = iso lib t\<rparr>)))"

definition calcular_posicion_luna ::
  "('loc, 'ts, 'time) astropy \<Rightarrow> 'time \<Rightarrow> 'loc tracker \<Rightarrow> 'time option
     \<Rightarrow> exn + posicion option" where
  "calcular_posicion_luna lib now tr t_arg =
     (case tracker_earth_location tr of
        None \<Rightarrow> Inr None
      | Some loc \<Rightarrow>
          (let t = (case t_arg of None \<Rightarrow> now | Some t' \<Rightarrow> t') in
           case moon_altaz lib loc t of
             Inl e \<Rightarrow> Inl e
           | Inr (alt, az) \<Rightarrow> Inr (Some \<lparr>elevacion = alt, azimuth = az, tiempo = iso lib t\<rparr>)))"

text \<open>\<^verbatim>\<open>es_objeto_visible(elevacion, elevacion_minima=10)\<close>.\<close>

definition elevacion_minima_default :: real where
  "elevacion_minima_default = 10"

definition es_objeto_visible :: "real \<Rightarrow> real \<Rightarrow> bool" where
  "es_objeto_visible elev elevacion_minima = (elev > elevacion_minima)"

record info_observacion =
  info_tiempo :: string
  ubicacion :: json
  sol :: posicion
  luna :: posicion
  es_noche :: bool
  condiciones_observacion :: string

text \<open>
  \<^verbatim>\<open>obtener_info_observacion\<close>: the clock is read once and passed to both position
  methods. Subscripting a None position would raise TypeError.
\<close>

definition obtener_info_observacion ::
  "('loc, 'ts, 'time) astropy \<Rightarrow> 'time \<Rightarrow> 'loc tracker \<Rightarrow> exn + info_observacion option" where
  "obtener_info_observacion lib now tr =
     (case tracker_earth_location tr of
        None \<Rightarrow> Inr None
      | Some loc \<Rightarrow>
          (case calcular_posicion_sol lib now tr (Some now) of
             Inl e \<Rightarrow> Inl e
           | Inr so \<Rightarrow>
               (case calcular_posicion_luna lib now tr (Some now) of
                  Inl e \<Rightarrow> Inl e
                | Inr lu \<Rightarrow>
                    (case so of
                       None \<Rightarrow> Inl TypeError
                     | Some s \<Rightarrow>
                         (case lu of
                            None \<Rightarrow> Inl TypeError
                          | Some l \<Rightarrow>
                              Inr (Some
                                \<lparr>info_tiempo = iso lib now,
                                 ubicacion = ubicacion_actual (ubicacion_manager tr),
                                 sol = s, luna = l,
                                 es_noche = (elevacion s < - 6),
                                 condiciones_observacion =
                                   (if elevacion s < - 6 \<and> elevacion l < 30
                                    then ''Buenas'' else ''Regular'')\<rparr>))))))"

subsection \<open>The transform of the specification\<close>

text \<open>
  Modelled from the spec: the conversion between degrees, used at the interface, and
  radians, used inside the trigonometric functions (section 4.2, Precision).
\<close>

definition deg_to_rad :: "real \<Rightarrow> real" where
  "deg_to_rad x = x * pi / 180"

definition rad_to_deg :: "real \<Rightarrow> real" where
  "rad_to_deg x = x * 180 / pi"

text \<open>Modelled from the spec: an angle in degrees normalised to [0, 360).\<close>

definition wrap360 :: "real \<Rightarrow> real" where
  "wrap360 x = x - 360 * of_int \<lfloor>x / 360\<rfloor>"

text \<open>
  Modelled from the spec: step 2 of section 4.2, the hour angle, local sidereal time
  minus right ascension, normalised to (-180, 180].
\<close>

definition hour_angle :: "real \<Rightarrow> real \<Rightarrow> real" where
  "hour_angle lst_deg ra_deg =
     (let x = wrap360 (lst_deg - ra_deg) in if x > 180 then x - 360 else x)"

text \<open>
  Modelled from the spec: step 3 of section 4.2,
  altitude = arcsin(sin(dec) sin(lat) + cos(dec) cos(lat) cos(H)).
\<close>

definition spec_altitude :: "real \<Rightarrow> real \<Rightarrow> real \<Rightarrow> real" where
  "spec_altitude lat_deg dec_deg h_deg =
     rad_to_deg (arcsin (sin (deg_to_rad dec_deg) * sin (deg_to_rad lat_deg) +
                         cos (deg_to_rad dec_deg) * cos (deg_to_rad lat_deg) *
                           cos (deg_to_rad h_deg)))"

text \<open>Modelled from the spec: the two-argument arctangent of step 4, with values in (-pi, pi].\<close>

definition atan2 :: "real \<Rightarrow> real \<Rightarrow> real" where
  "atan2 y x =
     (if x > 0 then arctan (y / x)
      else if x < 0 then (if y \<ge> 0 then arctan (y / x) + pi else arctan (y / x) - pi)
      else if y > 0 then pi / 2
      else if y < 0 then - (pi / 2)
      else 0)"

text \<open>
  Modelled from the spec: step 4 of section 4.2,
  azimuth = atan2(-sin(H) cos(dec), sin(dec) cos(lat) - cos(dec) sin(lat) cos(H)),
  normalised to [0, 360).
\<close>

definition spec_azimuth :: "real \<Rightarrow> real \<Rightarrow> real \<Rightarrow> real" where
  "spec_azimuth lat_deg dec_deg h_deg =
     wrap360 (rad_to_deg
       (atan2 (- sin (deg_to_rad h_deg) * cos (deg_to_rad dec_deg))
              (sin (deg_to_rad dec_deg) * cos (deg_to_rad lat_deg) -
               cos (deg_to_rad dec_deg) * sin (deg_to_rad lat_deg) * cos (deg_to_rad h_deg))))"

text \<open>
  Modelled from the spec: the horizontal-coordinate transform of section 4.2 for an
  observer given by latitude, longitude and elevation. The spec names the mean sidereal
  time formula of step 1 without giving it: \<open>lst\<close> is that formula, from the instant and
  the longitude to the local sidereal time in degrees.
\<close>

definition spec_transform ::
  "('time \<Rightarrow> real \<Rightarrow> real) \<Rightarrow> real \<times> real \<times> real \<Rightarrow> 'time \<Rightarrow> real \<Rightarrow> real \<Rightarrow> real \<times> real" where
  "spec_transform lst loc t ra_deg dec_deg =
     (let lat_deg = fst loc; lon_deg = fst (snd loc);
          h_deg = hour_angle (lst t lon_deg) ra_deg
      in (spec_altitude lat_deg dec_deg h_deg, spec_azimuth lat_deg dec_deg h_deg))"

text \<open>
  Modelled from the spec: a library whose transform of a star is the one of section
  4.2; it never raises, the ranges of its inputs being preconditions.
\<close>

definition spec_sky ::
  "('time \<Rightarrow> real \<Rightarrow> real) \<Rightarrow> (real \<times> real \<times> real, 'ts, 'time) astropy
     \<Rightarrow> (real \<times> real \<times> real, 'ts, 'time) astropy" where
  "spec_sky lst lib = lib\<lparr>star_altaz := (\<lambda>loc t r d. Inr (spec_transform lst loc t r d))\<rparr>"

subsection \<open>Stand-ins for the libraries\<close>

text \<open>
  Concrete libraries on which the functions can be evaluated. In \<open>fixed_sky\<close> a time is
  its own ISO text and the transform returns the given positions of star, Sun and Moon
  whatever the place and the time. In \<open>astropy_services\<close> a location is the triple of its
  geodetic coordinates and the constructor does what astropy documents for
  \<^verbatim>\<open>EarthLocation\<close>: a latitude outside [-90, 90] raises ValueError, a longitude is never
  rejected but wrapped into [-180, 180). Only numbers are covered: on any other value the
  stand-in raises, and no evaluation below reaches that case. The content of a file is
  the saved value itself.
\<close>

definition fixed_sky ::
  "real \<times> real \<Rightarrow> real \<times> real \<Rightarrow> real \<times> real \<Rightarrow> ('loc, string, string) astropy" where
  "fixed_sky star_pos sun_pos moon_pos =
     \<lparr>Time_of = Inr, iso = (\<lambda>t. t),
      star_altaz = (\<lambda>loc t r d. Inr star_pos),
      sun_altaz = (\<lambda>loc t. Inr sun_pos),
      moon_altaz = (\<lambda>loc t. Inr moon_pos)\<rparr>"

text \<open>\<^verbatim>\<open>Longitude(..., wrap_angle=180 deg)\<close>: the angle brought into [-180, 180).\<close>

definition wrap180 :: "real \<Rightarrow> real" where
  "wrap180 x = x - 360 * of_int \<lfloor>(x + 180) / 360\<rfloor>"

fun astropy_location :: "json \<Rightarrow> json \<Rightarrow> json \<Rightarrow> exn + real \<times> real \<times> real" where
  "astropy_location (JNum la) (JNum lo) (JNum h) =
     (if - 90 \<le> la \<and> la \<le> 90
      then Inr (la, wrap180 lo, h)
      else Inl (LibraryError ''Latitude angle(s) must be within -90 deg <= angle <= 90 deg''))"
| "astropy_location _ _ _ = Inl TypeError"

definition astropy_services :: "(real \<times> real \<times> real, json) services" where
  "astropy_services =
     \<lparr>EarthLocation = astropy_location, json_dump = (\<lambda>v. v), json_load = Inr\<rparr>"

text \<open>
  Two saved locations: one on the equator (latitude 0), one at Madrid, the coordinates
  used by the repository's own manual-entry test.
\<close>

definition equator_entries :: "(string \<times> json) list" where
  "equator_entries =
     [(''latitud'', JNum 0), (''longitud'', JNum (- 78.4558)), (''altitud'', JNum 2483)]"

definition madrid_entries :: "(string \<times> json) list" where
  "madrid_entries =
     [(''latitud'', JNum 40.4168), (''longitud'', JNum (- 3.7038)), (''altitud'', JNum 650)]"

text \<open>A disk without files, and a disk holding one file; every name can be written.\<close>

definition empty_disk :: "'f filesystem" where
  "empty_disk = \<lparr>files = Map.empty, writable = (\<lambda>f. True)\<rparr>"

definition disk_with :: "string \<Rightarrow> 'f \<Rightarrow> 'f filesystem" where
  "disk_with archivo content = \<lparr>files = [archivo \<mapsto> content], writable = (\<lambda>f. True)\<rparr>"

text \<open>A sidereal time that stands still: the local sidereal time is the longitude.\<close>

definition still_sidereal :: "string \<Rightarrow> real \<Rightarrow> real" where
  "still_sidereal t lon_deg = lon_deg"

text \<open>An observer at the north pole, at sea level on the prime meridian.\<close>

definition north_pole :: "real \<times> real \<times> real" where
  "north_pole = (90, 0, 0)"

section \<open>Theorems\<close>

subsection \<open>Target selection\<close>

text \<open>
  Claim C7. Target selection succeeds exactly for the names of the catalog. For a
  catalog key, \<open>set_target\<close> returns True, records the name as target and switches
  tracking on; for any other name it returns False and leaves the simulator, hence the
  current target and the tracking flag, as they were.
\<close>

theorem set_target_iff_in_catalog:
  "(fst (set_target s n) \<longleftrightarrow> n \<in> dom (map_of (catalog s))) \<and>
   (n \<in> dom (map_of (catalog s)) \<longrightarrow>
      set_target s n = (True, s\<lparr>target_object := Some n, tracking_active := True\<rparr>)) \<and>
   (n \<notin> dom (map_of (catalog s)) \<longrightarrow>
      set_target s n = (False, s) \<and>
      target_object (snd (set_target s n)) = target_object s \<and>
      tracking_active (snd (set_target s n)) = tracking_active s)"
  by (auto simp: set_target_def in_catalog_def)

theorem set_target_iff_in_catalog_witness:
  "''Vega'' \<in> dom (map_of (catalog (init_simulator (None :: unit option)))) \<and>
   set_target (init_simulator (None :: unit option)) ''Vega'' =
     (True, (init_simulator None)\<lparr>target_object := Some ''Vega'', tracking_active := True\<rparr>) \<and>
   ''Pluto'' \<notin> dom (map_of (catalog (init_simulator (None :: unit option)))) \<and>
   set_target (init_simulator (None :: unit option)) ''Pluto'' = (False, init_simulator None)"
  using set_target_iff_in_catalog [of "init_simulator (None :: unit option)" "''Vega''"]
        set_target_iff_in_catalog [of "init_simulator (None :: unit option)" "''Pluto''"]
  by (simp add: init_simulator_def star_catalog_def dom_def)

subsection \<open>Day-phase classification\<close>

text \<open>
  Claim C2. The classifier follows the threshold table: Day iff the solar altitude is
  above 6, civil twilight iff it lies in (-6, 6], nautical twilight iff in (-12, -6],
  astronomical twilight iff in (-18, -12], night iff it is at most -18. Hence the
  phase never moves back toward day when the altitude strictly decreases.
\<close>

theorem day_phase_thresholds:
  "(day_phase_of a = Dia \<longleftrightarrow> a > 6) \<and>
   (day_phase_of a = Crepusculo \<longleftrightarrow> - 6 < a \<and> a \<le> 6) \<and>
   (day_phase_of a = Crepusculo_nautico \<longleftrightarrow> - 12 < a \<and> a \<le> - 6) \<and>
   (day_phase_of a = Crepusculo_astronomico \<longleftrightarrow> - 18 < a \<and> a \<le> - 12) \<and>
   (day_phase_of a = Noche \<longleftrightarrow> a \<le> - 18) \<and>
   (\<forall>b. b < a \<longrightarrow> darkness (day_phase_of a) \<le> darkness (day_phase_of b))"
  by (auto simp: day_phase_of_def)

theorem day_phase_thresholds_witness:
  "day_phase_of 6 = Crepusculo \<and> day_phase_of (- 6) = Crepusculo_nautico \<and>
   day_phase_of (- 12) = Crepusculo_astronomico \<and> day_phase_of (- 18) = Noche \<and>
   (- 18 :: real) < - 12 \<and>
   darkness (day_phase_of (- 12)) \<le> darkness (day_phase_of (- 18))"
  using day_phase_thresholds [of 6] day_phase_thresholds [of "- 6"]
        day_phase_thresholds [of "- 12"] day_phase_thresholds [of "- 18"]
  by (simp add: day_phase_of_def)

subsection \<open>Dependence on the clock\<close>

text \<open>
  Claim C1, as the code has it. With the parameter \<^verbatim>\<open>timestamp\<close> omitted,
  \<open>get_target_coordinates\<close> takes the observing time from the clock: for the same
  observer and the same target, two calls at different clock readings return different
  dictionaries (here they differ in the field \<open>timestamp\<close>, the sky being held fixed).
\<close>

theorem omitted_instant_reads_clock_counterexample:
  "get_target_coordinates (fixed_sky (45, 180) (0, 0) (0, 0)) ''2024-01-01 00:00:00.000''
       (snd (set_target (init_simulator (Some ())) ''Vega'')) None \<noteq>
   get_target_coordinates (fixed_sky (45, 180) (0, 0) (0, 0)) ''2024-01-01 00:00:01.000''
       (snd (set_target (init_simulator (Some ())) ''Vega'')) None"
  by (simp add: get_target_coordinates_def target_try_def fixed_sky_def set_target_def
        in_catalog_def init_simulator_def star_catalog_def)

text \<open>
  Claim C1, amended. When the instant is passed explicitly, the result of
  \<open>get_target_coordinates\<close> does not depend on the clock: it is a function of the
  observer, the target and the instant. When the instant is omitted, the result is the
  one of passing the clock reading explicitly. \<open>get_sun_moon_info\<close> has no parameter
  for the instant: it reports the positions of Sun and Moon at the clock reading.
\<close>

theorem explicit_instant_determines_result:
  "get_target_coordinates lib now s (Some ts) = get_target_coordinates lib now' s (Some ts) \<and>
   (Time_of lib ts = Inr now \<longrightarrow>
      get_target_coordinates lib now s None = get_target_coordinates lib now' s (Some ts)) \<and>
   (earth_location s = Some loc \<and> sun_altaz lib loc now = Inr (sa, sz) \<and>
    moon_altaz lib loc now = Inr (ma, mz) \<longrightarrow>
      get_sun_moon_info lib now s =
        Some (Sun_moon
          \<lparr>sun = \<lparr>body_altitud = sa, body_azimut = sz, visible = (sa > 0)\<rparr>,
           moon = \<lparr>body_altitud = ma, body_azimut = mz, visible = (ma > 0)\<rparr>,
           day_phase = day_phase_of sa,
           observing_conditions = (if day_phase_of sa = Noche then ''Good'' else ''Poor'')\<rparr>))"
proof -
  have explicit: "target_try lib now cat tgt loc (Some ts) = target_try lib now' cat tgt loc (Some ts)"
    for cat tgt loc
    by (simp add: target_try_def)
  have clock: "target_try lib now cat tgt loc None = target_try lib now' cat tgt loc (Some ts)"
    if "Time_of lib ts = Inr now" for cat tgt loc
    using that by (simp add: target_try_def)
  have target: "get_target_coordinates lib now s (Some ts) =
      get_target_coordinates lib now' s (Some ts) \<and>
    (Time_of lib ts = Inr now \<longrightarrow>
      get_target_coordinates lib now s None = get_target_coordinates lib now' s (Some ts))"
    by (simp add: get_target_coordinates_def explicit clock split: option.splits)
  have bodies: "get_sun_moon_info lib now s =
        Some (Sun_moon
          \<lparr>sun = \<lparr>body_altitud = sa, body_azimut = sz, visible = (sa > 0)\<rparr>,
           moon = \<lparr>body_altitud = ma, body_azimut = mz, visible = (ma > 0)\<rparr>,
           day_phase = day_phase_of sa,
           observing_conditions = (if day_phase_of sa = Noche then ''Good'' else ''Poor'')\<rparr>)"
    if "earth_location s = Some loc" "sun_altaz lib loc now = Inr (sa, sz)"
      "moon_altaz lib loc now = Inr (ma, mz)"
    using that by (simp add: get_sun_moon_info_def)
  from target bodies show ?thesis by blast
qed

theorem explicit_instant_determines_result_witness:
  "Time_of (fixed_sky (45, 180) (- 20, 0) (45, 90)) ''2024-01-01 00:00:00.000'' =
     Inr ''2024-01-01 00:00:00.000'' \<and>
   get_target_coordinates (fixed_sky (45, 180) (- 20, 0) (45, 90)) ''2024-01-01 00:00:00.000''
       (snd (set_target (init_simulator (Some ())) ''Vega'')) None =
   get_target_coordinates (fixed_sky (45, 180) (- 20, 0) (45, 90)) ''2030-06-30 12:00:00.000''
       (snd (set_target (init_simulator (Some ())) ''Vega'')) (Some ''2024-01-01 00:00:00.000'') \<and>
   earth_location (snd (set_target (init_simulator (Some ())) ''Vega'')) = Some () \<and>
   get_sun_moon_info (fixed_sky (45, 180) (- 20, 0) (45, 90)) ''2024-01-01 00:00:00.000''
       (snd (set_target (init_simulator (Some ())) ''Vega'')) =
     Some (Sun_moon
       \<lparr>sun = \<lparr>body_altitud = - 20, body_azimut = 0, visible = False\<rparr>,
        moon = \<lparr>body_altitud = 45, body_azimut = 90, visible = True\<rparr>,
        day_phase = Noche, observing_conditions = ''Good''\<rparr>)"
  using explicit_instant_determines_result
    [where lib = "fixed_sky (45, 180) (- 20, 0) (45, 90)" and ts = "''2024-01-01 00:00:00.000''"
       and now = "''2024-01-01 00:00:00.000''" and now' = "''2030-06-30 12:00:00.000''"
       and s = "snd (set_target (init_simulator (Some ())) ''Vega'')"
       and loc = "()" and sa = "- 20" and sz = 0 and ma = 45 and mz = 90]
  by (simp add: fixed_sky_def set_target_def in_catalog_def init_simulator_def
        star_catalog_def day_phase_of_def)

subsection \<open>Coordinates are forwarded unchanged\<close>

text \<open>
  The altitude and azimuth of a result are the two numbers the library transform
  returned for the catalog entry of the target: the simulator neither clamps nor wraps
  them, so their ranges are those of the library.
\<close>

lemma target_coords_from_library:
  assumes "get_target_coordinates lib now s ts = Some (Target_coords c)"
  shows "\<exists>loc t d. earth_location s = Some loc \<and> map_of (catalog s) (name c) = Some d \<and>
           star_altaz lib loc t (ra d) (dec d) = Inr (altitud c, azimut c) \<and>
           target_magnitude c = magnitude d"
  using assms
  by (auto simp: get_target_coordinates_def target_try_def
        split: option.splits sum.splits if_splits prod.splits)

subsection \<open>Ranges of the computed coordinates\<close>

text \<open>
  The argument of the arcsine in the altitude formula lies in [-1, 1], being a weighted
  mean of cos (dec - lat) and - cos (dec + lat); hence the altitude lies in [-90, 90],
  and at latitude 90 it is the declination. The azimuth is normalised last.
\<close>

lemma wrap360_range: "0 \<le> wrap360 x \<and> wrap360 x < 360"
proof -
  have "of_int \<lfloor>x / 360\<rfloor> \<le> x / 360" "x / 360 < of_int \<lfloor>x / 360\<rfloor> + 1"
    by linarith+
  then show ?thesis unfolding wrap360_def by (simp add: field_simps)
qed

lemma weighted_difference_bounded:
  fixes a b c :: real
  assumes "- 1 \<le> a" "a \<le> 1" "- 1 \<le> b" "b \<le> 1" "- 1 \<le> c" "c \<le> 1"
  shows "\<bar>a * ((1 + c) / 2) - b * ((1 - c) / 2)\<bar> \<le> 1"
proof -
  define p where "p = (1 + c) / 2"
  define q where "q = (1 - c) / 2"
  have p0: "0 \<le> p" and q0: "0 \<le> q" and pq: "p + q = 1"
    using assms by (simp_all add: p_def q_def field_simps)
  have "a * p \<le> 1 * p" "(- 1) * p \<le> a * p" "b * q \<le> 1 * q" "(- 1) * q \<le> b * q"
    using mult_right_mono [of a 1 p] mult_right_mono [of "- 1" a p]
      mult_right_mono [of b 1 q] mult_right_mono [of "- 1" b q] assms p0 q0
    by blast+
  with pq have "\<bar>a * p - b * q\<bar> \<le> 1"
    by (simp add: abs_le_iff)
  then show ?thesis by (simp add: p_def q_def)
qed

lemma altitude_argument_bounded:
  "\<bar>sin d * sin l + cos d * cos l * cos h\<bar> \<le> (1::real)"
proof -
  have e: "sin d * sin l + cos d * cos l * cos h =
      cos (d - l) * ((1 + cos h) / 2) - cos (d + l) * ((1 - cos h) / 2)"
    by (simp add: cos_diff cos_add field_simps)
  show ?thesis
    unfolding e
    by (rule weighted_difference_bounded)
       (rule cos_ge_minus_one cos_le_one)+
qed

lemma spec_altitude_range: "- 90 \<le> spec_altitude la de h \<and> spec_altitude la de h \<le> 90"
proof -
  let ?y = "sin (deg_to_rad de) * sin (deg_to_rad la) +
            cos (deg_to_rad de) * cos (deg_to_rad la) * cos (deg_to_rad h)"
  have "\<bar>?y\<bar> \<le> 1" by (rule altitude_argument_bounded)
  then have y: "- 1 \<le> ?y" "?y \<le> 1" by (simp_all add: abs_le_iff)
  have b: "- (pi / 2) \<le> arcsin ?y" "arcsin ?y \<le> pi / 2"
    using arcsin_bounded [OF y] by simp_all
  have "- 90 \<le> arcsin ?y * 180 / pi"
    using b(1) pi_gt_zero by (simp add: field_simps)
  moreover have "arcsin ?y * 180 / pi \<le> 90"
    using b(2) pi_gt_zero by (simp add: field_simps)
  ultimately show ?thesis by (simp add: spec_altitude_def rad_to_deg_def)
qed

lemma spec_altitude_pole:
  assumes "- 90 \<le> de" "de \<le> 90"
  shows "spec_altitude 90 de h = de"
proof -
  have r: "deg_to_rad 90 = pi / 2" by (simp add: deg_to_rad_def)
  have "(- 90) * pi \<le> de * pi" "de * pi \<le> 90 * pi"
    using mult_right_mono [of "- 90" de pi] mult_right_mono [of de 90 pi] assms pi_ge_zero
    by simp_all
  then have b: "- (pi / 2) \<le> deg_to_rad de" "deg_to_rad de \<le> pi / 2"
    by (simp_all add: deg_to_rad_def field_simps)
  have "arcsin (sin (deg_to_rad de)) = deg_to_rad de"
    using b by (rule arcsin_sin)
  then show ?thesis
    by (simp add: spec_altitude_def r rad_to_deg_def deg_to_rad_def)
qed

lemma spec_sky_result:
  assumes "get_target_coordinates (spec_sky lst lib) now s ts = Some (Target_coords c)"
  shows "\<exists>loc t d. earth_location s = Some loc \<and> target_object s = Some (name c) \<and>
           map_of (catalog s) (name c) = Some d \<and>
           altitud c = spec_altitude (fst loc) (dec d) (hour_angle (lst t (fst (snd loc))) (ra d)) \<and>
           azimut c = spec_azimuth (fst loc) (dec d) (hour_angle (lst t (fst (snd loc))) (ra d))"
  using assms
  by (auto simp: get_target_coordinates_def target_try_def spec_sky_def spec_transform_def
        Let_def split: option.splits sum.splits if_splits prod.splits)

text \<open>
  Claim C5. For every successful position computation, with the transform of the
  specification, the returned azimuth lies in [0, 360) and the returned altitude lies
  in [-90, 90], whatever the observer, the target and the instant.
\<close>

theorem spec_transform_ranges:
  "get_target_coordinates (spec_sky lst lib) now s ts = Some (Target_coords c) \<longrightarrow>
     0 \<le> azimut c \<and> azimut c < 360 \<and> - 90 \<le> altitud c \<and> altitud c \<le> 90"
proof
  assume "get_target_coordinates (spec_sky lst lib) now s ts = Some (Target_coords c)"
  from spec_sky_result [OF this] obtain la de h where
    "altitud c = spec_altitude la de h" "azimut c = spec_azimuth la de h"
    by blast
  then show "0 \<le> azimut c \<and> azimut c < 360 \<and> - 90 \<le> altitud c \<and> altitud c \<le> 90"
    using spec_altitude_range [of la de h] wrap360_range
    by (simp add: spec_azimuth_def)
qed

theorem spec_transform_ranges_witness:
  "get_target_coordinates (spec_sky still_sidereal (fixed_sky (0, 0) (0, 0) (0, 0)))
       ''2024-01-01 00:00:00.000''
       (snd (set_target (init_simulator (Some north_pole)) ''Vega'')) None =
     Some (Target_coords
       \<lparr>name = ''Vega'', altitud = 38.784,
        azimut = spec_azimuth 90 38.784 (hour_angle 0 279.234),
        target_magnitude = 0.03, is_visible = True, status = ''Visible'',
        timestamp = ''2024-01-01 00:00:00.000''\<rparr>) \<and>
   0 \<le> spec_azimuth 90 38.784 (hour_angle 0 279.234) \<and>
   spec_azimuth 90 38.784 (hour_angle 0 279.234) < 360 \<and>
   - 90 \<le> (38.784::real) \<and> (38.784::real) \<le> 90"
  using spec_transform_ranges
    [where lst = still_sidereal and lib = "fixed_sky (0, 0) (0, 0) (0, 0)"
       and now = "''2024-01-01 00:00:00.000''"
       and s = "snd (set_target (init_simulator (Some north_pole)) ''Vega'')" and ts = None
       and c = "\<lparr>name = ''Vega'', altitud = 38.784,
                  azimut = spec_azimuth 90 38.784 (hour_angle 0 279.234),
                  target_magnitude = 0.03, is_visible = True, status = ''Visible'',
                  timestamp = ''2024-01-01 00:00:00.000''\<rparr>"]
  by (simp add: get_target_coordinates_def target_try_def spec_sky_def spec_transform_def
        fixed_sky_def still_sidereal_def north_pole_def set_target_def in_catalog_def
        init_simulator_def star_catalog_def spec_altitude_pole)

subsection \<open>Altitude at the north pole\<close>




subsection \<open>Visibility\<close>

text \<open>
  Claim C3, as the code has it. \<open>es_objeto_visible\<close> compares with a minimum elevation
  whose default is 10 degrees, so an object at 5 degrees, above the horizon, is not
  visible there.
\<close>

theorem horizon_policy_counterexample:
  "\<not> (es_objeto_visible 5 elevacion_minima_default \<longleftrightarrow> (5::real) > 0)"
  by (simp add: es_objeto_visible_def elevacion_minima_default_def)

text \<open>
  Claim C3, amended. In \<open>get_target_coordinates\<close> and \<open>get_sun_moon_info\<close> an object is
  visible iff its altitude is above 0, so altitude 0 is not visible.
  \<open>es_objeto_visible\<close> holds iff the elevation is above the minimum elevation passed by
  the caller, 10 degrees by default.
\<close>

theorem visibility_thresholds:
  "(get_target_coordinates lib now s ts = Some (Target_coords c) \<longrightarrow>
      is_visible c = (altitud c > 0)) \<and>
   (get_sun_moon_info lib now s = Some (Sun_moon i) \<longrightarrow>
      visible (sun i) = (body_altitud (sun i) > 0) \<and>
      visible (moon i) = (body_altitud (moon i) > 0)) \<and>
   es_objeto_visible e m = (e > m) \<and>
   es_objeto_visible e elevacion_minima_default = (e > 10)"
  by (auto simp: get_target_coordinates_def target_try_def get_sun_moon_info_def
        es_objeto_visible_def elevacion_minima_default_def
      split: option.splits sum.splits if_splits prod.splits)

theorem visibility_thresholds_witness:
  "get_target_coordinates (fixed_sky (0, 180) (0, 0) (0, 0)) ''2024-01-01 00:00:00.000''
       (snd (set_target (init_simulator (Some ())) ''Vega'')) None =
     Some (Target_coords
       \<lparr>name = ''Vega'', altitud = 0, azimut = 180, target_magnitude = 3 / 100,
        is_visible = False, status = ''Bajo el horizonte'',
        timestamp = ''2024-01-01 00:00:00.000''\<rparr>) \<and>
   is_visible
       \<lparr>name = ''Vega'', altitud = 0, azimut = 180, target_magnitude = 3 / 100,
        is_visible = False, status = ''Bajo el horizonte'',
        timestamp = ''2024-01-01 00:00:00.000''\<rparr> = ((0::real) > 0) \<and>
   get_sun_moon_info (fixed_sky (0, 180) (0, 0) (0, 0)) ''2024-01-01 00:00:00.000''
       (snd (set_target (init_simulator (Some ())) ''Vega'')) =
     Some (Sun_moon
       \<lparr>sun = \<lparr>body_altitud = 0, body_azimut = 0, visible = False\<rparr>,
        moon = \<lparr>body_altitud = 0, body_azimut = 0, visible = False\<rparr>,
        day_phase = Crepusculo, observing_conditions = ''Poor''\<rparr>) \<and>
   \<not> es_objeto_visible 10 elevacion_minima_default"
  using visibility_thresholds
    [where lib = "fixed_sky (0, 180) (0, 0) (0, 0)" and now = "''2024-01-01 00:00:00.000''"
       and s = "snd (set_target (init_simulator (Some ())) ''Vega'')" and ts = None
       and c = "\<lparr>name = ''Vega'', altitud = 0, azimut = 180, target_magnitude = 3 / 100,
                  is_visible = False, status = ''Bajo el horizonte'',
                  timestamp = ''2024-01-01 00:00:00.000''\<rparr>"
       and i = "\<lparr>sun = \<lparr>body_altitud = 0, body_azimut = 0, visible = False\<rparr>,
                  moon = \<lparr>body_altitud = 0, body_azimut = 0, visible = False\<rparr>,
                  day_phase = Crepusculo, observing_conditions = ''Poor''\<rparr>"
       and e = 10 and m = 10]
  by (simp add: get_target_coordinates_def target_try_def fixed_sky_def set_target_def
        in_catalog_def init_simulator_def star_catalog_def get_sun_moon_info_def
        day_phase_of_def es_objeto_visible_def elevacion_minima_default_def)

subsection \<open>Observing conditions\<close>

text \<open>
  Claim C4, as the code has it. The two call sites disagree. With the Sun at -10 and
  the Moon at 5 degrees, \<open>get_sun_moon_info\<close> reports nautical twilight and "Poor" while
  \<open>obtener_info_observacion\<close> reports "Buenas"; with the Sun at -20 and the Moon at 45
  degrees, the first reports night and "Good" while the second reports "Regular",
  because of the lunar altitude.
\<close>

theorem observing_verdicts_counterexample:
  "get_sun_moon_info (fixed_sky (0, 0) (- 10, 270) (5, 90)) ''2024-01-01 00:00:00.000''
       (init_simulator (Some ())) =
     Some (Sun_moon
       \<lparr>sun = \<lparr>body_altitud = - 10, body_azimut = 270, visible = False\<rparr>,
        moon = \<lparr>body_altitud = 5, body_azimut = 90, visible = True\<rparr>,
        day_phase = Crepusculo_nautico, observing_conditions = ''Poor''\<rparr>) \<and>
   obtener_info_observacion (fixed_sky (0, 0) (- 10, 270) (5, 90)) ''2024-01-01 00:00:00.000''
       \<lparr>ubicacion_manager = init_manager, tracker_earth_location = Some ()\<rparr> =
     Inr (Some
       \<lparr>info_tiempo = ''2024-01-01 00:00:00.000'', ubicacion = JNull,
        sol = \<lparr>elevacion = - 10, azimuth = 270, tiempo = ''2024-01-01 00:00:00.000''\<rparr>,
        luna = \<lparr>elevacion = 5, azimuth = 90, tiempo = ''2024-01-01 00:00:00.000''\<rparr>,
        es_noche = True, condiciones_observacion = ''Buenas''\<rparr>) \<and>
   get_sun_moon_info (fixed_sky (0, 0) (- 20, 0) (45, 90)) ''2024-01-01 00:00:00.000''
       (init_simulator (Some ())) =
     Some (Sun_moon
       \<lparr>sun = \<lparr>body_altitud = - 20, body_azimut = 0, visible = False\<rparr>,
        moon = \<lparr>body_altitud = 45, body_azimut = 90, visible = True\<rparr>,
        day_phase = Noche, observing_conditions = ''Good''\<rparr>) \<and>
   obtener_info_observacion (fixed_sky (0, 0) (- 20, 0) (45, 90)) ''2024-01-01 00:00:00.000''
       \<lparr>ubicacion_manager = init_manager, tracker_earth_location = Some ()\<rparr> =
     Inr (Some
       \<lparr>info_tiempo = ''2024-01-01 00:00:00.000'', ubicacion = JNull,
        sol = \<lparr>elevacion = - 20, azimuth = 0, tiempo = ''2024-01-01 00:00:00.000''\<rparr>,
        luna = \<lparr>elevacion = 45, azimuth = 90, tiempo = ''2024-01-01 00:00:00.000''\<rparr>,
        es_noche = True, condiciones_observacion = ''Regular''\<rparr>)"
  by (simp add: get_sun_moon_info_def obtener_info_observacion_def calcular_posicion_sol_def
        calcular_posicion_luna_def fixed_sky_def init_simulator_def init_manager_def
        day_phase_of_def)

text \<open>
  Claim C4, amended. In \<open>get_sun_moon_info\<close> the verdict is "Good" iff the day phase is
  night, that is iff the solar altitude is at most -18, and "Poor" otherwise, whatever
  the lunar altitude. In \<open>obtener_info_observacion\<close> the verdict is "Buenas" iff the solar
  elevation is below -6 and the lunar elevation is below 30, and "Regular" otherwise.
\<close>

theorem observing_verdicts:
  "(get_sun_moon_info lib now s = Some (Sun_moon i) \<longrightarrow>
      (observing_conditions i = ''Good'' \<longleftrightarrow> day_phase i = Noche) \<and>
      (observing_conditions i = ''Poor'' \<longleftrightarrow> day_phase i \<noteq> Noche) \<and>
      (day_phase i = Noche \<longleftrightarrow> body_altitud (sun i) \<le> - 18)) \<and>
   (obtener_info_observacion lib now tr = Inr (Some j) \<longrightarrow>
      (condiciones_observacion j = ''Buenas'' \<longleftrightarrow>
         elevacion (sol j) < - 6 \<and> elevacion (luna j) < 30) \<and>
      (condiciones_observacion j = ''Regular'' \<longleftrightarrow>
         \<not> (elevacion (sol j) < - 6 \<and> elevacion (luna j) < 30)))"
proof -
  have sim: "(observing_conditions i = ''Good'' \<longleftrightarrow> day_phase i = Noche) \<and>
      (observing_conditions i = ''Poor'' \<longleftrightarrow> day_phase i \<noteq> Noche) \<and>
      (day_phase i = Noche \<longleftrightarrow> body_altitud (sun i) \<le> - 18)"
    if "get_sun_moon_info lib now s = Some (Sun_moon i)"
    using that
    by (auto simp: get_sun_moon_info_def day_phase_of_def
          split: option.splits sum.splits prod.splits if_splits)
  have trk: "(condiciones_observacion j = ''Buenas'' \<longleftrightarrow>
         elevacion (sol j) < - 6 \<and> elevacion (luna j) < 30) \<and>
      (condiciones_observacion j = ''Regular'' \<longleftrightarrow>
         \<not> (elevacion (sol j) < - 6 \<and> elevacion (luna j) < 30))"
    if "obtener_info_observacion lib now tr = Inr (Some j)"
    using that
    by (auto simp: obtener_info_observacion_def split: option.splits sum.splits if_splits)
  show ?thesis using sim trk by blast
qed

theorem observing_verdicts_witness:
  "get_sun_moon_info (fixed_sky (0, 0) (- 20, 0) (45, 90)) ''2024-01-01 00:00:00.000''
       (init_simulator (Some ())) =
     Some (Sun_moon
       \<lparr>sun = \<lparr>body_altitud = - 20, body_azimut = 0, visible = False\<rparr>,
        moon = \<lparr>body_altitud = 45, body_azimut = 90, visible = True\<rparr>,
        day_phase = Noche, observing_conditions = ''Good''\<rparr>) \<and>
   obtener_info_observacion (fixed_sky (0, 0) (- 20, 0) (45, 90)) ''2024-01-01 00:00:00.000''
       \<lparr>ubicacion_manager = init_manager, tracker_earth_location = Some ()\<rparr> =
     Inr (Some
       \<lparr>info_tiempo = ''2024-01-01 00:00:00.000'', ubicacion = JNull,
        sol = \<lparr>elevacion = - 20, azimuth = 0, tiempo = ''2024-01-01 00:00:00.000''\<rparr>,
        luna = \<lparr>elevacion = 45, azimuth = 90, tiempo = ''2024-01-01 00:00:00.000''\<rparr>,
        es_noche = True, condiciones_observacion = ''Regular''\<rparr>) \<and>
   (- 20 :: real) \<le> - 18 \<and> \<not> ((- 20 :: real) < - 6 \<and> (45 :: real) < 30)"
  using observing_verdicts
    [where lib = "fixed_sky (0, 0) (- 20, 0) (45, 90)" and now = "''2024-01-01 00:00:00.000''"
       and s = "init_simulator (Some ())"
       and tr = "\<lparr>ubicacion_manager = init_manager, tracker_earth_location = Some ()\<rparr>"
       and i = "\<lparr>sun = \<lparr>body_altitud = - 20, body_azimut = 0, visible = False\<rparr>,
        moon = \<lparr>body_altitud = 45, body_azimut = 90, visible = True\<rparr>,
        day_phase = Noche, observing_conditions = ''Good''\<rparr>"
       and j = "\<lparr>info_tiempo = ''2024-01-01 00:00:00.000'', ubicacion = JNull,
        sol = \<lparr>elevacion = - 20, azimuth = 0, tiempo = ''2024-01-01 00:00:00.000''\<rparr>,
        luna = \<lparr>elevacion = 45, azimuth = 90, tiempo = ''2024-01-01 00:00:00.000''\<rparr>,
        es_noche = True, condiciones_observacion = ''Regular''\<rparr>"]
  by (simp add: get_sun_moon_info_def obtener_info_observacion_def calcular_posicion_sol_def
        calcular_posicion_luna_def fixed_sky_def init_simulator_def init_manager_def
        day_phase_of_def)

subsection \<open>Angles\<close>

lemma wrap180_range: "- 180 \<le> wrap180 x \<and> wrap180 x < 180"
proof -
  have "of_int \<lfloor>(x + 180) / 360\<rfloor> \<le> (x + 180) / 360"
       "(x + 180) / 360 < of_int \<lfloor>(x + 180) / 360\<rfloor> + 1"
    by linarith+
  then show ?thesis unfolding wrap180_def by (simp add: field_simps)
qed

lemma wrap180_id: "- 180 \<le> x \<Longrightarrow> x < 180 \<Longrightarrow> wrap180 x = x"
proof -
  assume a: "- 180 \<le> x" "x < 180"
  have "\<lfloor>(x + 180) / 360\<rfloor> = 0"
    using a by (simp add: floor_eq_iff)
  then show ?thesis by (simp add: wrap180_def)
qed

lemma wrap180_200: "wrap180 200 = - 160"
  by (simp add: wrap180_def)

subsection \<open>Manual location entry\<close>

text \<open>
  The method has no range check of its own: it stores the entered coordinates as the
  current location first and calls the constructor afterwards, so it fails exactly
  when the constructor raises, and then the derived location keeps its previous value.
\<close>

lemma manual_entry_follows_constructor:
  "(isl (fst (establecer_ubicacion_manual lib now_iso m la lo h ciudad pais)) \<longleftrightarrow>
      isl (EarthLocation lib (JNum la) (JNum lo) (JNum h))) \<and>
   ubicacion_actual (snd (establecer_ubicacion_manual lib now_iso m la lo h ciudad pais)) =
     JObj [(''latitud'', JNum la), (''longitud'', JNum lo),
           (''ciudad'', JStr ciudad), (''pais'', JStr pais),
           (''region'', JStr []), (''timezone'', JStr []),
           (''altitud'', JNum h), (''timestamp'', JStr now_iso)] \<and>
   (isl (EarthLocation lib (JNum la) (JNum lo) (JNum h)) \<longrightarrow>
      mgr_earth_location (snd (establecer_ubicacion_manual lib now_iso m la lo h ciudad pais)) =
        mgr_earth_location m) \<and>
   (\<forall>loc. EarthLocation lib (JNum la) (JNum lo) (JNum h) = Inr loc \<longrightarrow>
      mgr_earth_location (snd (establecer_ubicacion_manual lib now_iso m la lo h ciudad pais)) =
        Some loc)"
  by (cases "EarthLocation lib (JNum la) (JNum lo) (JNum h)")
     (simp_all add: establecer_ubicacion_manual_def)

text \<open>
  Claim C9, as the code has it. A longitude outside [-180, 180] is not rejected. Manual
  entry of longitude 200 at the latitude of Madrid succeeds: the call returns the
  dictionary, with longitude 200 in it, and the derived location is built, with the
  longitude wrapped to -160.
\<close>

theorem manual_entry_counterexample:
  "establecer_ubicacion_manual astropy_services ''2024-01-01T00:00:00'' init_manager
       40.4168 200 650 ''Madrid'' ''Espana'' =
     (Inr (JObj [(''latitud'', JNum 40.4168), (''longitud'', JNum 200),
                 (''ciudad'', JStr ''Madrid''), (''pais'', JStr ''Espana''),
                 (''region'', JStr []), (''timezone'', JStr []),
                 (''altitud'', JNum 650), (''timestamp'', JStr ''2024-01-01T00:00:00'')]),
      \<lparr>ubicacion_actual =
         JObj [(''latitud'', JNum 40.4168), (''longitud'', JNum 200),
               (''ciudad'', JStr ''Madrid''), (''pais'', JStr ''Espana''),
               (''region'', JStr []), (''timezone'', JStr []),
               (''altitud'', JNum 650), (''timestamp'', JStr ''2024-01-01T00:00:00'')],
       mgr_earth_location = Some (40.4168, - 160, 650)\<rparr>)"
  by (simp add: establecer_ubicacion_manual_def astropy_services_def init_manager_def
        wrap180_200)

text \<open>
  Claim C9, amended. An out-of-range latitude is rejected at construction: for every
  latitude outside [-90, 90] manual entry fails, because the \<open>EarthLocation\<close> constructor
  raises, and the derived location keeps its previous value, so the transform never
  receives it. A longitude is never rejected: for every latitude in [-90, 90] and every
  longitude, manual entry succeeds and the derived location holds the longitude wrapped
  into [-180, 180).
\<close>

theorem manual_entry_rejects_latitude_only:
  "((la < - 90 \<or> 90 < la) \<longrightarrow>
      isl (fst (establecer_ubicacion_manual astropy_services now_iso m la lo h ciudad pais)) \<and>
      mgr_earth_location
          (snd (establecer_ubicacion_manual astropy_services now_iso m la lo h ciudad pais)) =
        mgr_earth_location m) \<and>
   (- 90 \<le> la \<and> la \<le> 90 \<longrightarrow>
      \<not> isl (fst (establecer_ubicacion_manual astropy_services now_iso m la lo h ciudad pais)) \<and>
      mgr_earth_location
          (snd (establecer_ubicacion_manual astropy_services now_iso m la lo h ciudad pais)) =
        Some (la, wrap180 lo, h) \<and>
      - 180 \<le> wrap180 lo \<and> wrap180 lo < 180)"
  using wrap180_range [of lo]
  by (auto simp: establecer_ubicacion_manual_def astropy_services_def)

theorem manual_entry_rejects_latitude_only_witness:
  "((95::real) < - 90 \<or> (90::real) < 95) \<and>
   isl (fst (establecer_ubicacion_manual astropy_services ''2024-01-01T00:00:00'' init_manager
               95 0 0 [] [])) \<and>
   mgr_earth_location (snd (establecer_ubicacion_manual astropy_services ''2024-01-01T00:00:00''
               init_manager 95 0 0 [] [])) = mgr_earth_location init_manager \<and>
   - 90 \<le> (40.4168::real) \<and> (40.4168::real) \<le> 90 \<and>
   mgr_earth_location (snd (establecer_ubicacion_manual astropy_services ''2024-01-01T00:00:00''
               init_manager 40.4168 (- 3.7038) 650 ''Madrid'' ''Espana'')) =
     Some (40.4168, - 3.7038, 650)"
  using manual_entry_rejects_latitude_only
    [where now_iso = "''2024-01-01T00:00:00''" and m = init_manager
       and la = 95 and lo = 0 and h = 0 and ciudad = "[]" and pais = "[]"]
    manual_entry_rejects_latitude_only
    [where now_iso = "''2024-01-01T00:00:00''" and m = init_manager
       and la = "40.4168" and lo = "- 3.7038" and h = 650 and ciudad = "''Madrid''"
       and pais = "''Espana''"]
  by (simp add: wrap180_id)

subsection \<open>Saving and loading the location\<close>

text \<open>
  Facts about \<open>cargar_ubicacion\<close> used below: the re-creation step never changes the
  dictionary, and it touches the derived location only in the branch where both tested
  values are truthy.
\<close>

lemma recrear_keeps_dict:
  "recrear_earth_location lib m = Inr m2 \<Longrightarrow> ubicacion_actual m2 = ubicacion_actual m"
  by (auto simp: recrear_earth_location_def Let_def split: sum.splits if_splits)

lemma recrear_cases:
  assumes "recrear_earth_location lib m = Inr m2"
  shows "if truthy (stored (ubicacion_actual m) ''latitud'' JNull) \<and>
            truthy (stored (ubicacion_actual m) ''longitud'' JNull)
         then \<exists>loc. EarthLocation lib (stored (ubicacion_actual m) ''latitud'' JNull)
                        (stored (ubicacion_actual m) ''longitud'' JNull)
                        (stored (ubicacion_actual m) ''altitud'' (JNum 0)) = Inr loc \<and>
                     mgr_earth_location m2 = Some loc
         else mgr_earth_location m2 = mgr_earth_location m"
proof (cases "ubicacion_actual m")
  case (JObj kvs)
  with assms show ?thesis
    by (auto simp: recrear_earth_location_def stored_def Let_def
          split: sum.splits if_splits option.splits)
qed (use assms in \<open>simp_all add: recrear_earth_location_def Let_def\<close>)

lemma cargar_Some:
  assumes "fst (cargar_ubicacion lib fs m a) = Some d"
  shows "recrear_earth_location lib (m\<lparr>ubicacion_actual := d\<rparr>) = Inr (snd (cargar_ubicacion lib fs m a))"
  using assms
  by (auto simp: cargar_ubicacion_def split: option.splits sum.splits dest: recrear_keeps_dict)

lemma no_location_no_position:
  "earth_location s = None \<Longrightarrow>
     get_target_coordinates alib now s ts = None \<and> get_sun_moon_info alib now s = None"
  by (simp add: get_target_coordinates_def get_sun_moon_info_def split: option.splits)

lemma cargar_after_guardar:
  assumes codec: "json_load lib (json_dump lib (ubicacion_actual m)) = Inr (ubicacion_actual m)"
      and saved: "fst (guardar_ubicacion lib fs m a)"
  shows "cargar_ubicacion lib (snd (guardar_ubicacion lib fs m a)) m' a =
           (case recrear_earth_location lib (m'\<lparr>ubicacion_actual := ubicacion_actual m\<rparr>) of
              Inl e \<Rightarrow> (None, m'\<lparr>ubicacion_actual := ubicacion_actual m\<rparr>)
            | Inr m2 \<Rightarrow> (Some (ubicacion_actual m), m2))"
proof -
  from saved have fs': "snd (guardar_ubicacion lib fs m a) =
      fs\<lparr>files := (files fs)(a \<mapsto> json_dump lib (ubicacion_actual m))\<rparr>"
    by (simp add: guardar_ubicacion_def split: if_splits)
  show ?thesis
    by (simp add: fs' cargar_ubicacion_def codec recrear_keeps_dict split: sum.splits)
qed

text \<open>
  Claim C8. Saving and loading round-trips. Provided the json codec decodes what it
  encoded for the saved dictionary, and the save succeeded, a later load from the same
  file leaves the loading manager with exactly the saved dictionary as its current
  location; in particular the entries for latitude, longitude and elevation are the
  saved ones, exactly. The value returned by the load is the saved dictionary, unless an
  exception is raised while the derived location is rebuilt, in which case it is None.
\<close>

theorem save_load_round_trip:
  assumes codec: "json_load lib (json_dump lib (ubicacion_actual m)) = Inr (ubicacion_actual m)"
      and saved: "fst (guardar_ubicacion lib fs m a)"
  shows "ubicacion_actual (snd (cargar_ubicacion lib (snd (guardar_ubicacion lib fs m a)) m' a)) =
           ubicacion_actual m \<and>
         getitem (ubicacion_actual
             (snd (cargar_ubicacion lib (snd (guardar_ubicacion lib fs m a)) m' a))) ''latitud'' =
           getitem (ubicacion_actual m) ''latitud'' \<and>
         getitem (ubicacion_actual
             (snd (cargar_ubicacion lib (snd (guardar_ubicacion lib fs m a)) m' a))) ''longitud'' =
           getitem (ubicacion_actual m) ''longitud'' \<and>
         getitem (ubicacion_actual
             (snd (cargar_ubicacion lib (snd (guardar_ubicacion lib fs m a)) m' a))) ''altitud'' =
           getitem (ubicacion_actual m) ''altitud'' \<and>
         fst (cargar_ubicacion lib (snd (guardar_ubicacion lib fs m a)) m' a) =
           (if isl (recrear_earth_location lib (m'\<lparr>ubicacion_actual := ubicacion_actual m\<rparr>))
            then None else Some (ubicacion_actual m))"
proof -
  let ?r = "cargar_ubicacion lib (snd (guardar_ubicacion lib fs m a)) m' a"
  have state: "ubicacion_actual (snd ?r) = ubicacion_actual m"
    by (auto simp: cargar_after_guardar [OF codec saved] split: sum.splits
          dest: recrear_keeps_dict)
  have ret: "fst ?r =
      (if isl (recrear_earth_location lib (m'\<lparr>ubicacion_actual := ubicacion_actual m\<rparr>))
       then None else Some (ubicacion_actual m))"
    by (simp add: cargar_after_guardar [OF codec saved] split: sum.splits)
  from state ret show ?thesis by simp
qed

theorem save_load_round_trip_witness:
  "json_load astropy_services (json_dump astropy_services
       (ubicacion_actual (snd (establecer_ubicacion_manual astropy_services ''2024-01-01T00:00:00''
                           init_manager 28.3009 (- 16.5093) 2390 ''Teide'' ''Espana'')))) =
     Inr (ubicacion_actual (snd (establecer_ubicacion_manual astropy_services ''2024-01-01T00:00:00''
                           init_manager 28.3009 (- 16.5093) 2390 ''Teide'' ''Espana''))) \<and>
   fst (guardar_ubicacion astropy_services empty_disk
          (snd (establecer_ubicacion_manual astropy_services ''2024-01-01T00:00:00''
                  init_manager 28.3009 (- 16.5093) 2390 ''Teide'' ''Espana''))
          ''ubicacion_config.json'') \<and>
   cargar_ubicacion astropy_services
       (snd (guardar_ubicacion astropy_services
               empty_disk
               (snd (establecer_ubicacion_manual astropy_services ''2024-01-01T00:00:00''
                       init_manager 28.3009 (- 16.5093) 2390 ''Teide'' ''Espana''))
               ''ubicacion_config.json''))
       init_manager ''ubicacion_config.json'' =
     (Some (JObj [(''latitud'', JNum 28.3009), (''longitud'', JNum (- 16.5093)),
                  (''ciudad'', JStr ''Teide''), (''pais'', JStr ''Espana''),
                  (''region'', JStr []), (''timezone'', JStr []),
                  (''altitud'', JNum 2390), (''timestamp'', JStr ''2024-01-01T00:00:00'')]),
      \<lparr>ubicacion_actual =
         JObj [(''latitud'', JNum 28.3009), (''longitud'', JNum (- 16.5093)),
               (''ciudad'', JStr ''Teide''), (''pais'', JStr ''Espana''),
               (''region'', JStr []), (''timezone'', JStr []),
               (''altitud'', JNum 2390), (''timestamp'', JStr ''2024-01-01T00:00:00'')],
       mgr_earth_location = Some (28.3009, - 16.5093, 2390)\<rparr>)"
  using save_load_round_trip
    [where lib = astropy_services
       and m = "snd (establecer_ubicacion_manual astropy_services ''2024-01-01T00:00:00''
                       init_manager 28.3009 (- 16.5093) 2390 ''Teide'' ''Espana'')"
       and fs = "empty_disk"
       and a = "''ubicacion_config.json''" and m' = init_manager]
  by (simp add: astropy_services_def wrap180_id establecer_ubicacion_manual_def init_manager_def
        guardar_ubicacion_def cargar_ubicacion_def recrear_earth_location_def empty_disk_def)

text \<open>
  Claim C10. After a successful load the derived location is rebuilt iff the stored
  latitude and longitude are both truthy, that is present and nonzero; otherwise it is
  left as it was. For a persisted observer with latitude 0 or longitude 0, loaded into
  a fresh manager, the load returns the dictionary but the derived location stays
  absent, and a simulator created from that manager returns None for the target
  coordinates and for the Sun and Moon information.
\<close>

theorem load_recreates_location_iff_nonzero:
  "(fst (cargar_ubicacion lib fs m a) = Some d \<longrightarrow>
      ubicacion_actual (snd (cargar_ubicacion lib fs m a)) = d \<and>
      (truthy (stored d ''latitud'' JNull) \<and> truthy (stored d ''longitud'' JNull) \<longrightarrow>
         (\<exists>loc. EarthLocation lib (stored d ''latitud'' JNull) (stored d ''longitud'' JNull)
                   (stored d ''altitud'' (JNum 0)) = Inr loc \<and>
                 mgr_earth_location (snd (cargar_ubicacion lib fs m a)) = Some loc)) \<and>
      (\<not> (truthy (stored d ''latitud'' JNull) \<and> truthy (stored d ''longitud'' JNull)) \<longrightarrow>
         mgr_earth_location (snd (cargar_ubicacion lib fs m a)) = mgr_earth_location m)) \<and>
   (files fs a = Some content \<and> json_load lib content = Inr (JObj kvs) \<and>
    (map_of kvs ''latitud'' = Some (JNum 0) \<or> map_of kvs ''longitud'' = Some (JNum 0)) \<longrightarrow>
      cargar_ubicacion lib fs init_manager a =
        (Some (JObj kvs), \<lparr>ubicacion_actual = JObj kvs, mgr_earth_location = None\<rparr>) \<and>
      get_target_coordinates alib now
        (snd (set_target (create_simulator (snd (cargar_ubicacion lib fs init_manager a))) n)) ts
        = None \<and>
      get_sun_moon_info alib now
        (create_simulator (snd (cargar_ubicacion lib fs init_manager a))) = None)"
proof -
  have first: "ubicacion_actual (snd (cargar_ubicacion lib fs m a)) = d \<and>
      (truthy (stored d ''latitud'' JNull) \<and> truthy (stored d ''longitud'' JNull) \<longrightarrow>
         (\<exists>loc. EarthLocation lib (stored d ''latitud'' JNull) (stored d ''longitud'' JNull)
                   (stored d ''altitud'' (JNum 0)) = Inr loc \<and>
                 mgr_earth_location (snd (cargar_ubicacion lib fs m a)) = Some loc)) \<and>
      (\<not> (truthy (stored d ''latitud'' JNull) \<and> truthy (stored d ''longitud'' JNull)) \<longrightarrow>
         mgr_earth_location (snd (cargar_ubicacion lib fs m a)) = mgr_earth_location m)"
    if ok: "fst (cargar_ubicacion lib fs m a) = Some d"
  proof -
    let ?m2 = "snd (cargar_ubicacion lib fs m a)"
    have r: "recrear_earth_location lib (m\<lparr>ubicacion_actual := d\<rparr>) = Inr ?m2"
      by (rule cargar_Some [OF ok])
    have d: "ubicacion_actual ?m2 = d"
      using recrear_keeps_dict [OF r] by simp
    from recrear_cases [OF r] have
      "if truthy (stored d ''latitud'' JNull) \<and> truthy (stored d ''longitud'' JNull)
       then \<exists>loc. EarthLocation lib (stored d ''latitud'' JNull) (stored d ''longitud'' JNull)
                        (stored d ''altitud'' (JNum 0)) = Inr loc \<and>
                   mgr_earth_location ?m2 = Some loc
       else mgr_earth_location ?m2 = mgr_earth_location m"
      by (auto split: if_splits)
    with d show ?thesis
      by (auto split: if_splits)
  qed
  have second: "cargar_ubicacion lib fs init_manager a =
        (Some (JObj kvs), \<lparr>ubicacion_actual = JObj kvs, mgr_earth_location = None\<rparr>) \<and>
      get_target_coordinates alib now
        (snd (set_target (create_simulator (snd (cargar_ubicacion lib fs init_manager a))) n)) ts
        = None \<and>
      get_sun_moon_info alib now
        (create_simulator (snd (cargar_ubicacion lib fs init_manager a))) = None"
    if f: "files fs a = Some content" and l: "json_load lib content = Inr (JObj kvs)"
      and z: "map_of kvs ''latitud'' = Some (JNum 0) \<or> map_of kvs ''longitud'' = Some (JNum 0)"
  proof -
    have rec: "recrear_earth_location lib \<lparr>ubicacion_actual = JObj kvs, mgr_earth_location = None\<rparr>
        = Inr \<lparr>ubicacion_actual = JObj kvs, mgr_earth_location = None\<rparr>"
      using z by (auto simp: recrear_earth_location_def Let_def split: option.splits)
    have c: "cargar_ubicacion lib fs init_manager a =
        (Some (JObj kvs), \<lparr>ubicacion_actual = JObj kvs, mgr_earth_location = None\<rparr>)"
      by (simp add: cargar_ubicacion_def f l init_manager_def rec)
    have e1: "earth_location (snd (set_target
        (create_simulator (snd (cargar_ubicacion lib fs init_manager a))) n)) = None"
      by (simp add: c create_simulator_def get_earth_location_def init_simulator_def
            set_target_def)
    have e2: "earth_location (create_simulator (snd (cargar_ubicacion lib fs init_manager a)))
        = None"
      by (simp add: c create_simulator_def get_earth_location_def init_simulator_def)
    show ?thesis
      using c no_location_no_position [OF e1, where alib = alib and now = now and ts = ts]
        no_location_no_position [OF e2, where alib = alib and now = now and ts = ts]
      by simp
  qed
  from first second show ?thesis by blast
qed

theorem load_recreates_location_iff_nonzero_witness:
  "files (disk_with ''ubicacion_config.json'' (JObj equator_entries)) ''ubicacion_config.json'' =
     Some (JObj equator_entries) \<and>
   json_load astropy_services (JObj equator_entries) = Inr (JObj equator_entries) \<and>
   map_of equator_entries ''latitud'' = Some (JNum 0) \<and>
   cargar_ubicacion astropy_services (disk_with ''ubicacion_config.json'' (JObj equator_entries))
       init_manager ''ubicacion_config.json'' =
     (Some (JObj equator_entries),
      \<lparr>ubicacion_actual = JObj equator_entries, mgr_earth_location = None\<rparr>) \<and>
   get_target_coordinates (fixed_sky (45, 180) (0, 0) (0, 0)) ''2024-01-01 00:00:00.000''
       (snd (set_target
          (create_simulator (snd (cargar_ubicacion astropy_services
             (disk_with ''ubicacion_config.json'' (JObj equator_entries))
             init_manager ''ubicacion_config.json'')))
          ''Vega''))
       None = None \<and>
   fst (cargar_ubicacion astropy_services (disk_with ''ubicacion_config.json'' (JObj madrid_entries))
          init_manager ''ubicacion_config.json'') = Some (JObj madrid_entries) \<and>
   mgr_earth_location
       (snd (cargar_ubicacion astropy_services
          (disk_with ''ubicacion_config.json'' (JObj madrid_entries))
          init_manager ''ubicacion_config.json'')) =
     Some (40.4168, - 3.7038, 650)"
  using load_recreates_location_iff_nonzero
    [where lib = astropy_services
       and fs = "disk_with ''ubicacion_config.json'' (JObj equator_entries)"
       and m = init_manager and a = "''ubicacion_config.json''"
       and content = "JObj equator_entries" and kvs = equator_entries
       and d = "JObj equator_entries"
       and alib = "fixed_sky (45, 180) (0, 0) (0, 0)" and now = "''2024-01-01 00:00:00.000''"
       and n = "''Vega''" and ts = None]
    load_recreates_location_iff_nonzero
    [where lib = astropy_services
       and fs = "disk_with ''ubicacion_config.json'' (JObj madrid_entries)"
       and m = init_manager and a = "''ubicacion_config.json''"
       and d = "JObj madrid_entries"]
  by (simp add: astropy_services_def wrap180_id cargar_ubicacion_def recrear_earth_location_def
        init_manager_def stored_def disk_with_def equator_entries_def madrid_entries_def)

end
